theory Spec2Isabelle
  imports Main "HOL-Library.Word" "HOL-Library.Sublist"
begin

section \<open>JavaScript strings\<close>

text \<open>
  A JavaScript string is a sequence of UTF-16 code units. String literals of the source
  are ASCII; \<open>cu\<close> is the code unit of an ASCII character, and \<open>js\<close> turns a HOL
  literal into the code units of the same JavaScript literal.
\<close>

type_synonym code_unit = "16 word"
type_synonym jsstring = "code_unit list"

definition cu :: "char \<Rightarrow> code_unit" where
  "cu c = of_nat (of_char c)"

definition js :: "string \<Rightarrow> jsstring" where
  "js s = map cu s"

text \<open>
  \<^verbatim>\<open>String.prototype.trim\<close> removes, from both ends, the code units of the
  ECMAScript productions WhiteSpace and LineTerminator: TAB, LF, VT, FF, CR, SP, NBSP,
  the Unicode space separators (U+1680, U+2000 to U+200A, U+202F, U+205F, U+3000),
  LS, PS and the byte order mark U+FEFF.
\<close>

definition isWhiteSpace :: "code_unit \<Rightarrow> bool" where
  "isWhiteSpace c = (c \<in> set [0x9, 0xA, 0xB, 0xC, 0xD, 0x20, 0xA0, 0x1680,
      0x2000, 0x2001, 0x2002, 0x2003, 0x2004, 0x2005, 0x2006, 0x2007, 0x2008, 0x2009, 0x200A,
      0x2028, 0x2029, 0x202F, 0x205F, 0x3000, 0xFEFF])"

definition trimStart :: "jsstring \<Rightarrow> jsstring" where
  "trimStart s = dropWhile isWhiteSpace s"

definition trimEnd :: "jsstring \<Rightarrow> jsstring" where
  "trimEnd s = rev (dropWhile isWhiteSpace (rev s))"

definition trim :: "jsstring \<Rightarrow> jsstring" where
  "trim s = trimEnd (trimStart s)"

text \<open>
  \<^verbatim>\<open>s.replace(pat, rep)\<close> with a string pattern replaces the first occurrence of
  \<open>pat\<close> only. (The source's only replacement text is the empty string, so the
  \<^verbatim>\<open>$\<close> patterns of a replacement text play no role.)
\<close>

fun js_replace :: "jsstring \<Rightarrow> jsstring \<Rightarrow> jsstring \<Rightarrow> jsstring" where
  "js_replace [] pat rep = (if pat = [] then rep else [])"
| "js_replace (x # xs) pat rep =
     (if prefix pat (x # xs) then rep @ drop (length pat) (x # xs)
      else x # js_replace xs pat rep)"

text \<open>\<^verbatim>\<open>a || b\<close> on strings: the empty string is the only falsy string.\<close>

definition js_or :: "jsstring \<Rightarrow> jsstring \<Rightarrow> jsstring" where
  "js_or a b = (if a \<noteq> [] then a else b)"

section \<open>The script generator of \<^verbatim>\<open>lambda-layer-generator.js\<close>\<close>

text \<open>
  The body of \<^verbatim>\<open>generateCode\<close> begins
  \<^verbatim>\<open>
    const libraries = librariesTextarea.value.trim();
    const zipName = zipNameInput.value.trim() || 'lambda-layer';
    const pyVersion = selectedVersion;
    const pyShortVersion = pyVersion.replace('.', '');
    let code = '';
    const requirementsContent = libraries || 'requests==2.32.3';
    if (packageManager === 'pyenv') { code = (first template) } else { code = (second template) }
  \<close>
  and then assigns \<^verbatim>\<open>code\<close> to the text content of the output element.
  \<open>generateCode_code\<close> is the value of \<^verbatim>\<open>code\<close> at that point, as a function of what
  the body reads: the two state variables and the values of the two input elements. The
  two template literals are written one source line per line, each interpolation in its
  place.
\<close>

definition generateCode_code :: "jsstring \<Rightarrow> jsstring \<Rightarrow> jsstring \<Rightarrow> jsstring \<Rightarrow> jsstring" where
  "generateCode_code packageManager selectedVersion librariesValue zipNameValue =
    (let libraries = trim librariesValue;
         zipName = js_or (trim zipNameValue) (js ''lambda-layer'');
         pyVersion = selectedVersion;
         pyShortVersion = js_replace pyVersion (js ''.'') (js '''');
         requirementsContent = js_or libraries (js ''requests==2.32.3'')
     in if packageManager = js ''pyenv'' then
          js ''mkdir -p layer-build/ && cd layer-build/\<newline>'' @
          js ''pyenv local '' @ pyVersion @ js ''\<newline>'' @
          js ''pyenv which python\<newline>'' @
          js ''\<newline>'' @
          js ''cat << EOF > requirements.txt\<newline>'' @
          requirementsContent @ js ''\<newline>'' @
          js ''EOF\<newline>'' @
          js ''\<newline>'' @
          js ''python -m venv create_layer\<newline>'' @
          js ''source create_layer/bin/activate\<newline>'' @
          js ''pip install -r requirements.txt\<newline>'' @
          js ''mkdir -p python\<newline>'' @
          js ''cp -r create_layer/lib python/\<newline>'' @
          js ''zip -r '' @ zipName @ js ''-py'' @ pyShortVersion @ js ''.zip python\<newline>'' @
          js ''\<newline>'' @
          js ''# Cleanup\<newline>'' @
          js ''deactivate\<newline>'' @
          js ''rm -rf create_layer/ python/\<newline>''
        else
          js ''mkdir -p layer-build/ && cd layer-build/\<newline>'' @
          js ''cat << EOF > requirements.txt\<newline>'' @
          requirementsContent @ js ''\<newline>'' @
          js ''EOF\<newline>'' @
          js ''\<newline>'' @
          js ''uv venv --python '' @ pyVersion @ js '' create_layer/\<newline>'' @
          js ''source create_layer/bin/activate\<newline>'' @
          js ''uv pip install -r requirements.txt\<newline>'' @
          js ''mkdir -p python\<newline>'' @
          js ''cp -r create_layer/lib python/\<newline>'' @
          js ''zip -r '' @ zipName @ js ''-py'' @ pyShortVersion @ js ''.zip python\<newline>'' @
          js ''\<newline>'' @
          js ''# Cleanup\<newline>'' @
          js ''deactivate\<newline>'' @
          js ''rm -rf create_layer/ python/\<newline>'')"

section \<open>The page state and the event handlers\<close>

text \<open>
  The state the script works on: its two variables, the version buttons (each with its
  \<^verbatim>\<open>data-version\<close> attribute, which reads as \<^verbatim>\<open>undefined\<close> when absent, and its
  \<^verbatim>\<open>selected\<close> class), the \<^verbatim>\<open>selected\<close> class of the two strategy buttons, the values
  of the two input elements and the text content of the output element.
\<close>

datatype error = TypeError

record version_btn =
  dataset_version :: "jsstring option"
  btn_selected :: bool

record page =
  selectedVersion :: "jsstring option"
  packageManager :: jsstring
  versionButtons :: "version_btn list"
  pyenvBtn_selected :: bool
  uvBtn_selected :: bool
  librariesTextarea_value :: jsstring
  zipNameInput_value :: jsstring
  generatedCode_textContent :: jsstring

text \<open>
  \<^verbatim>\<open>generateCode\<close> reads the state and replaces the text content of the output element.
  With \<^verbatim>\<open>selectedVersion\<close> undefined, \<^verbatim>\<open>pyVersion.replace\<close> throws before anything is
  written. The external highlighter is called on the element afterwards and leaves its
  text content as it is.
\<close>

definition generateCode :: "page \<Rightarrow> error + page" where
  "generateCode pg =
    (case selectedVersion pg of
       None \<Rightarrow> Inl TypeError
     | Some v \<Rightarrow>
         Inr (pg\<lparr>generatedCode_textContent :=
           generateCode_code (packageManager pg) v
             (librariesTextarea_value pg) (zipNameInput_value pg)\<rparr>))"

text \<open>The callback of \<^verbatim>\<open>DOMContentLoaded\<close>: the two initialisations, then \<^verbatim>\<open>generateCode()\<close>.\<close>

definition DOMContentLoaded :: "page \<Rightarrow> error + page" where
  "DOMContentLoaded pg =
     generateCode (pg\<lparr>selectedVersion := Some (js ''3.10''), packageManager := js ''pyenv''\<rparr>)"

text \<open>
  The listeners that change the state: a click on a version button
  \<^verbatim>\<open>
    versionButtons.forEach(b => b.classList.remove('selected'));
    btn.classList.add('selected');
    selectedVersion = btn.dataset.version;
    generateCode();
  \<close>
  a click on one of the two strategy buttons (here \<^verbatim>\<open>pyenvBtn\<close>, and alike for \<^verbatim>\<open>uvBtn\<close>)
  \<^verbatim>\<open>
    pyenvBtn.classList.add('selected');
    uvBtn.classList.remove('selected');
    packageManager = 'pyenv';
    generateCode();
  \<close>
  and an input event of one of the two input elements, whose listener is \<^verbatim>\<open>generateCode\<close>
  itself. An event carries what identifies it: the index of the clicked version button, or
  the new value of the edited element. Each listener ends with a call of
  \<^verbatim>\<open>generateCode\<close>; an exception there leaves the assignments made before it in place.
  The copy and download listeners read the state and do not change it.
\<close>

datatype event =
    VersionClick nat
  | PyenvClick
  | UvClick
  | LibrariesInput jsstring
  | ZipNameInput jsstring

definition then_generateCode :: "page \<Rightarrow> page \<times> error option" where
  "then_generateCode pg =
     (case generateCode pg of Inl e \<Rightarrow> (pg, Some e) | Inr pg' \<Rightarrow> (pg', None))"

fun handle :: "event \<Rightarrow> page \<Rightarrow> page \<times> error option" where
  "handle (VersionClick i) pg =
     (if i < length (versionButtons pg) then
        then_generateCode (pg\<lparr>
          versionButtons :=
            (map (\<lambda>b. b\<lparr>btn_selected := False\<rparr>) (versionButtons pg))
              [i := (versionButtons pg ! i)\<lparr>btn_selected := True\<rparr>],
          selectedVersion := dataset_version (versionButtons pg ! i)\<rparr>)
      else (pg, None))"
| "handle PyenvClick pg =
     then_generateCode (pg\<lparr>pyenvBtn_selected := True, uvBtn_selected := False,
       packageManager := js ''pyenv''\<rparr>)"
| "handle UvClick pg =
     then_generateCode (pg\<lparr>uvBtn_selected := True, pyenvBtn_selected := False,
       packageManager := js ''uv''\<rparr>)"
| "handle (LibrariesInput t) pg = then_generateCode (pg\<lparr>librariesTextarea_value := t\<rparr>)"
| "handle (ZipNameInput t) pg = then_generateCode (pg\<lparr>zipNameInput_value := t\<rparr>)"

text \<open>The states the page can be in: after loading, and after any sequence of events.\<close>

inductive reachable :: "page \<Rightarrow> bool" where
  loaded: "DOMContentLoaded pg0 = Inr pg \<Longrightarrow> reachable pg"
| event: "reachable pg \<Longrightarrow> reachable (fst (handle ev pg))"

section \<open>Notions used in the properties\<close>

text \<open>
  The values of the local variables of \<^verbatim>\<open>generateCode\<close>, and the parts of the two
  templates the properties speak of: the manifest (the here-document that writes
  \<^verbatim>\<open>requirements.txt\<close>), the archive command and the cleanup commands that end the script.
\<close>

definition requirementsContent :: "jsstring \<Rightarrow> jsstring" where
  "requirementsContent librariesValue = js_or (trim librariesValue) (js ''requests==2.32.3'')"

definition zipName :: "jsstring \<Rightarrow> jsstring" where
  "zipName zipNameValue = js_or (trim zipNameValue) (js ''lambda-layer'')"

definition pyShortVersion :: "jsstring \<Rightarrow> jsstring" where
  "pyShortVersion pyVersion = js_replace pyVersion (js ''.'') (js '''')"

definition manifest :: "jsstring \<Rightarrow> jsstring" where
  "manifest r = js ''cat << EOF > requirements.txt\<newline>'' @ r @ js ''\<newline>EOF\<newline>''"

definition archive_command :: "jsstring \<Rightarrow> jsstring \<Rightarrow> jsstring" where
  "archive_command z short = js ''zip -r '' @ z @ js ''-py'' @ short @ js ''.zip python\<newline>''"

definition cleanup :: jsstring where
  "cleanup = js ''\<newline># Cleanup\<newline>deactivate\<newline>rm -rf create_layer/ python/\<newline>''"

definition cleanup_commands :: jsstring where
  "cleanup_commands = js ''deactivate\<newline>rm -rf create_layer/ python/''"

text \<open>The lines of a text: its parts between line feeds.\<close>

fun js_lines :: "jsstring \<Rightarrow> jsstring list" where
  "js_lines [] = [[]]"
| "js_lines (c # cs) =
     (if c = 0xA then [] # js_lines cs
      else (case js_lines cs of [] \<Rightarrow> [[c]] | l # ls \<Rightarrow> (c # l) # ls))"

text \<open>
  Modelled from the spec: the enumerated set of supported version strings. The page markup
  that carries one button per version is not among the sources; the spec names the set as
  "3.9" to "3.13".
\<close>

definition supportedVersions :: "jsstring list" where
  "supportedVersions = [js ''3.9'', js ''3.10'', js ''3.11'', js ''3.12'', js ''3.13'']"

text \<open>
  A page with a single version button, in the state the \<^verbatim>\<open>DOMContentLoaded\<close> callback
  leaves it in when both input elements are empty. It is the concrete state of the examples.
\<close>

definition sample_page :: "jsstring option \<Rightarrow> page" where
  "sample_page dv =
     \<lparr>selectedVersion = Some (js ''3.10''), packageManager = js ''pyenv'',
      versionButtons = [\<lparr>dataset_version = dv, btn_selected = False\<rparr>],
      pyenvBtn_selected = True, uvBtn_selected = False,
      librariesTextarea_value = [], zipNameInput_value = [],
      generatedCode_textContent = generateCode_code (js ''pyenv'') (js ''3.10'') [] []\<rparr>"

text \<open>
  The number of positions of a text at which a pattern occurs, and the check that no
  non-empty suffix of \<open>q\<close> is a prefix of \<open>b\<close>: then no occurrence of a pattern with
  tail \<open>q\<close> can begin before \<open>b\<close> and end inside it.
\<close>

fun occurrences :: "'a list \<Rightarrow> 'a list \<Rightarrow> nat" where
  "occurrences p [] = 0"
| "occurrences p (x # xs) = (if prefix p (x # xs) then 1 else 0) + occurrences p xs"

fun blocked :: "'a list \<Rightarrow> 'a list \<Rightarrow> bool" where
  "blocked [] b = True"
| "blocked (x # q) b = (\<not> prefix (x # q) b \<and> blocked q b)"

section \<open>Properties\<close>

subsection \<open>Trimming\<close>

text \<open>
  What \<^verbatim>\<open>trim\<close> returns is the text between its leading and its trailing run of
  white space; it is empty exactly when the text is white space only, and otherwise begins
  and ends with a character that is not white space.
\<close>

lemma dropWhile_keeps: "xs \<noteq> [] \<Longrightarrow> \<not> P (hd xs) \<Longrightarrow> dropWhile P xs = xs"
  by (cases xs) auto

lemma dropWhile_twice_Nil: "dropWhile P (rev (dropWhile P s)) = [] \<longleftrightarrow> dropWhile P s = []"
proof
  assume a: "dropWhile P (rev (dropWhile P s)) = []"
  show "dropWhile P s = []"
  proof (rule ccontr)
    assume ne: "dropWhile P s \<noteq> []"
    then have "\<not> P (hd (dropWhile P s))" by (rule hd_dropWhile)
    moreover have "hd (dropWhile P s) \<in> set (dropWhile P s)" using ne by simp
    moreover from a have "\<forall>x\<in>set (dropWhile P s). P x"
      by simp
    ultimately show False by blast
  qed
next
  assume "dropWhile P s = []"
  then show "dropWhile P (rev (dropWhile P s)) = []" by (simp only: rev.simps dropWhile.simps)
qed

lemma trimStart_decomp: "s = takeWhile isWhiteSpace s @ trimStart s"
  by (simp add: trimStart_def)

lemma trimEnd_decomp: "s = trimEnd s @ rev (takeWhile isWhiteSpace (rev s))"
proof -
  have "rev (takeWhile isWhiteSpace (rev s) @ dropWhile isWhiteSpace (rev s)) = s"
    by (simp only: takeWhile_dropWhile_id rev_rev_ident)
  then show ?thesis by (simp only: trimEnd_def rev_append)
qed

lemma trim_decomp:
  "s = takeWhile isWhiteSpace s @ trim s @ rev (takeWhile isWhiteSpace (rev (trimStart s)))"
proof -
  have "trimStart s = trim s @ rev (takeWhile isWhiteSpace (rev (trimStart s)))"
    unfolding trim_def by (rule trimEnd_decomp)
  with trimStart_decomp [of s] show ?thesis by simp
qed

lemma trim_empty_iff: "trim s = [] \<longleftrightarrow> list_all isWhiteSpace s"
proof -
  have "trim s = [] \<longleftrightarrow> dropWhile isWhiteSpace (rev (dropWhile isWhiteSpace s)) = []"
    by (simp only: trim_def trimStart_def trimEnd_def rev_is_Nil_conv)
  also have "\<dots> \<longleftrightarrow> dropWhile isWhiteSpace s = []" by (rule dropWhile_twice_Nil)
  also have "\<dots> \<longleftrightarrow> list_all isWhiteSpace s"
    by (simp only: dropWhile_eq_Nil_conv list_all_iff)
  finally show ?thesis .
qed

lemma trim_hd: assumes ne: "trim s \<noteq> []" shows "\<not> isWhiteSpace (hd (trim s))"
proof -
  from ne have d: "trimStart s \<noteq> []"
    by (auto simp add: trim_def trimEnd_def)
  have "trimStart s = trim s @ rev (takeWhile isWhiteSpace (rev (trimStart s)))"
    unfolding trim_def by (rule trimEnd_decomp)
  then have "hd (trimStart s) = hd (trim s)" using ne by (metis hd_append2)
  moreover have "\<not> isWhiteSpace (hd (trimStart s))"
    using d unfolding trimStart_def by (rule hd_dropWhile)
  ultimately show ?thesis by simp
qed

lemma trim_last: assumes ne: "trim s \<noteq> []" shows "\<not> isWhiteSpace (last (trim s))"
proof -
  let ?r = "dropWhile isWhiteSpace (rev (trimStart s))"
  have r: "?r \<noteq> []" using ne by (simp add: trim_def trimEnd_def)
  have "last (trim s) = hd ?r" using r by (simp add: trim_def trimEnd_def last_rev)
  moreover have "\<not> isWhiteSpace (hd ?r)" using r by (rule hd_dropWhile)
  ultimately show ?thesis by simp
qed

subsection \<open>The shape of the generated text\<close>

text \<open>
  Both templates, with the literal text between the interpolations joined, and the
  resolved values of the dependency text and the base name.
\<close>

lemma code_pyenv:
  "generateCode_code (js ''pyenv'') v libs zn =
     js ''mkdir -p layer-build/ && cd layer-build/\<newline>pyenv local '' @ v @
     js ''\<newline>pyenv which python\<newline>\<newline>'' @
     manifest (requirementsContent libs) @
     js ''\<newline>python -m venv create_layer\<newline>source create_layer/bin/activate\<newline>pip install -r requirements.txt\<newline>mkdir -p python\<newline>cp -r create_layer/lib python/\<newline>'' @
     archive_command (zipName zn) (pyShortVersion v) @ cleanup"
  by (simp add: generateCode_code_def requirementsContent_def zipName_def pyShortVersion_def
      manifest_def archive_command_def cleanup_def js_def cu_def)

lemma code_uv:
  "pm \<noteq> js ''pyenv'' \<Longrightarrow> generateCode_code pm v libs zn =
     js ''mkdir -p layer-build/ && cd layer-build/\<newline>'' @
     manifest (requirementsContent libs) @
     js ''\<newline>uv venv --python '' @ v @
     js '' create_layer/\<newline>source create_layer/bin/activate\<newline>uv pip install -r requirements.txt\<newline>mkdir -p python\<newline>cp -r create_layer/lib python/\<newline>'' @
     archive_command (zipName zn) (pyShortVersion v) @ cleanup"
  by (simp add: generateCode_code_def requirementsContent_def zipName_def pyShortVersion_def
      manifest_def archive_command_def cleanup_def js_def cu_def)

lemma sublist_manifest: "sublist (manifest (requirementsContent libs)) (generateCode_code pm v libs zn)"
proof (cases "pm = js ''pyenv''")
  case True
  show ?thesis unfolding True code_pyenv
    by (rule sublist_appendI [where ps = "js ''mkdir -p layer-build/ && cd layer-build/\<newline>pyenv local '' @ v @
     js ''\<newline>pyenv which python\<newline>\<newline>''", simplified])
next
  case False
  show ?thesis unfolding code_uv [OF False]
    by (rule sublist_appendI)
qed

lemma sublist_archive_command:
  "sublist (archive_command (zipName zn) (pyShortVersion v)) (generateCode_code pm v libs zn)"
proof (cases "pm = js ''pyenv''")
  case True
  have "\<exists>ps. generateCode_code pm v libs zn =
      ps @ archive_command (zipName zn) (pyShortVersion v) @ cleanup"
    unfolding True code_pyenv by (metis append.assoc)
  then show ?thesis by (metis sublist_appendI)
next
  case False
  have "\<exists>ps. generateCode_code pm v libs zn =
      ps @ archive_command (zipName zn) (pyShortVersion v) @ cleanup"
    unfolding code_uv [OF False] by (metis append.assoc)
  then show ?thesis by (metis sublist_appendI)
qed

lemma code_ends:
  "suffix (archive_command (zipName zn) (pyShortVersion v) @ cleanup)
     (generateCode_code pm v libs zn)"
proof (cases "pm = js ''pyenv''")
  case True
  have "\<exists>ps. generateCode_code pm v libs zn =
      ps @ archive_command (zipName zn) (pyShortVersion v) @ cleanup"
    unfolding True code_pyenv by (metis append.assoc)
  then show ?thesis by (auto simp add: suffix_def)
next
  case False
  have "\<exists>ps. generateCode_code pm v libs zn =
      ps @ archive_command (zipName zn) (pyShortVersion v) @ cleanup"
    unfolding code_uv [OF False] by (metis append.assoc)
  then show ?thesis by (auto simp add: suffix_def)
qed

lemma cleanup_shape: "cleanup = js ''\<newline># Cleanup\<newline>'' @ cleanup_commands @ js ''\<newline>''"
  by (simp add: cleanup_def cleanup_commands_def js_def)

lemma requirementsContent_blank:
  "list_all isWhiteSpace libs \<Longrightarrow> requirementsContent libs = js ''requests==2.32.3''"
  by (simp add: requirementsContent_def js_or_def trim_empty_iff)

lemma requirementsContent_given:
  "\<not> list_all isWhiteSpace libs \<Longrightarrow> requirementsContent libs = trim libs"
  by (simp add: requirementsContent_def js_or_def trim_empty_iff)

lemma zipName_blank: "list_all isWhiteSpace zn \<Longrightarrow> zipName zn = js ''lambda-layer''"
  by (simp add: zipName_def js_or_def trim_empty_iff)

lemma code_cong:
  "requirementsContent libs = requirementsContent libs' \<Longrightarrow> zipName zn = zipName zn' \<Longrightarrow>
     generateCode_code pm v libs zn = generateCode_code pm v libs' zn'"
  by (cases "pm = js ''pyenv''") (simp_all add: code_pyenv code_uv)

lemma pyShortVersion_311: "pyShortVersion (js ''3.11'') = js ''311''"
  by (simp add: pyShortVersion_def js_def cu_def)

subsection \<open>The lines of the generated text\<close>

lemma member_filter_length: "x \<in> set xs \<Longrightarrow> 1 \<le> length (filter (\<lambda>l. l = x) xs)"
  by (induction xs) auto

lemma js_lines_nonempty: "js_lines s \<noteq> []"
  by (induction s) (auto split: list.splits)

lemma js_lines_append_newline: "js_lines (a @ 0xA # b) = js_lines a @ js_lines b"
proof (induction a)
  case Nil
  show ?case by simp
next
  case (Cons c a)
  obtain l ls where l: "js_lines a = l # ls"
    using js_lines_nonempty [of a] by (cases "js_lines a") auto
  show ?case using Cons.IH by (simp add: l)
qed

lemma js_lines_snoc:
  "js_lines (s @ [c]) =
     (if c = 0xA then js_lines s @ [[]]
      else butlast (js_lines s) @ [last (js_lines s) @ [c]])"
proof (induction s)
  case Nil
  show ?case by simp
next
  case (Cons x s)
  obtain l ls where l: "js_lines s = l # ls"
    using js_lines_nonempty [of s] by (cases "js_lines s") auto
  show ?case
  proof (cases "c = 0xA")
    case True
    from Cons.IH have ih: "js_lines (s @ [0xA]) = js_lines s @ [[]]"
      unfolding True by simp
    show ?thesis unfolding True by (simp add: ih l)
  next
    case False
    with Cons.IH have ih: "js_lines (s @ [c]) = butlast (js_lines s) @ [last (js_lines s) @ [c]]"
      by simp
    show ?thesis using False by (cases "ls = []") (simp_all add: ih l)
  qed
qed

lemma line_after_white_Cons:
  assumes "l \<in> set (js_lines (c # s))" and "isWhiteSpace c"
    and "l \<noteq> []" and "\<forall>x\<in>set l. \<not> isWhiteSpace x"
  shows "l \<in> set (js_lines s)"
proof -
  obtain l0 ls where l: "js_lines s = l0 # ls"
    using js_lines_nonempty [of s] by (cases "js_lines s") auto
  show ?thesis
  proof (cases "c = 0xA")
    case True
    with assms(1,3) show ?thesis by simp
  next
    case False
    with assms(1) have "l = c # l0 \<or> l \<in> set ls" by (simp add: l)
    moreover have "l \<noteq> c # l0" using assms(2,4) by auto
    ultimately show ?thesis by (simp add: l)
  qed
qed

lemma line_before_white_snoc:
  assumes "l \<in> set (js_lines (s @ [c]))" and "isWhiteSpace c"
    and "l \<noteq> []" and "\<forall>x\<in>set l. \<not> isWhiteSpace x"
  shows "l \<in> set (js_lines s)"
proof (cases "c = 0xA")
  case True
  with assms(1,3) show ?thesis by (simp add: js_lines_snoc)
next
  case False
  with assms(1) have "l \<in> set (butlast (js_lines s)) \<or> l = last (js_lines s) @ [c]"
    by (auto simp add: js_lines_snoc)
  moreover have "l \<noteq> last (js_lines s) @ [c]" using assms(2,4) by auto
  ultimately show ?thesis by (auto dest: in_set_butlastD)
qed

lemma line_after_white:
  assumes "l \<noteq> []" and "\<forall>x\<in>set l. \<not> isWhiteSpace x"
  shows "l \<in> set (js_lines s) \<Longrightarrow> l \<in> set (js_lines (trimStart s))"
  unfolding trimStart_def
proof (induction s)
  case Nil
  then show ?case by simp
next
  case (Cons c s)
  then show ?case using line_after_white_Cons [OF _ _ assms] by auto
qed

lemma line_before_white:
  assumes "l \<noteq> []" and "\<forall>x\<in>set l. \<not> isWhiteSpace x"
  shows "l \<in> set (js_lines s) \<Longrightarrow> l \<in> set (js_lines (trimEnd s))"
  unfolding trimEnd_def
proof (induction s rule: rev_induct)
  case Nil
  then show ?case by simp
next
  case (snoc c s)
  then show ?case using line_before_white_snoc [OF _ _ assms] by auto
qed

lemma line_survives_trim:
  assumes "l \<in> set (js_lines s)" and "l \<noteq> []" and "\<forall>x\<in>set l. \<not> isWhiteSpace x"
  shows "l \<in> set (js_lines (trim s))"
  unfolding trim_def using assms
  by (intro line_before_white line_after_white)

lemma EOF_survives_trim:
  "js ''EOF'' \<in> set (js_lines s) \<Longrightarrow> js ''EOF'' \<in> set (js_lines (trim s))"
  by (rule line_survives_trim) (simp_all add: js_def cu_def isWhiteSpace_def)

lemma js_lines_literal:
  "js_lines (js ''cat << EOF > requirements.txt'') = [js ''cat << EOF > requirements.txt'']"
  "js_lines (js ''EOF'') = [js ''EOF'']"
  by (simp_all add: js_def cu_def)

lemma code_lines:
  "\<exists>x y. generateCode_code pm v libs zn =
     x @ 0xA # js ''cat << EOF > requirements.txt'' @ 0xA # requirementsContent libs @
       0xA # js ''EOF'' @ 0xA # y"
proof (cases "pm = js ''pyenv''")
  case True
  have "generateCode_code pm v libs zn =
     (js ''mkdir -p layer-build/ && cd layer-build/\<newline>pyenv local '' @ v @
      js ''\<newline>pyenv which python\<newline>'') @
     0xA # js ''cat << EOF > requirements.txt'' @ 0xA # requirementsContent libs @
       0xA # js ''EOF'' @ 0xA #
     (js ''\<newline>python -m venv create_layer\<newline>source create_layer/bin/activate\<newline>pip install -r requirements.txt\<newline>mkdir -p python\<newline>cp -r create_layer/lib python/\<newline>'' @
     archive_command (zipName zn) (pyShortVersion v) @ cleanup)"
    unfolding True code_pyenv manifest_def by (simp add: js_def cu_def)
  then show ?thesis by blast
next
  case False
  have "generateCode_code pm v libs zn =
     js ''mkdir -p layer-build/ && cd layer-build/'' @
     0xA # js ''cat << EOF > requirements.txt'' @ 0xA # requirementsContent libs @
       0xA # js ''EOF'' @ 0xA #
     (js ''\<newline>uv venv --python '' @ v @
     js '' create_layer/\<newline>source create_layer/bin/activate\<newline>uv pip install -r requirements.txt\<newline>mkdir -p python\<newline>cp -r create_layer/lib python/\<newline>'' @
     archive_command (zipName zn) (pyShortVersion v) @ cleanup)"
    unfolding code_uv [OF False] manifest_def by (simp add: js_def cu_def)
  then show ?thesis by blast
qed

lemma code_js_lines:
  "\<exists>pre post. js_lines (generateCode_code pm v libs zn) =
     pre @ [js ''cat << EOF > requirements.txt''] @ js_lines (requirementsContent libs) @
       [js ''EOF''] @ post"
proof -
  obtain x y where "generateCode_code pm v libs zn =
     x @ 0xA # js ''cat << EOF > requirements.txt'' @ 0xA # requirementsContent libs @
       0xA # js ''EOF'' @ 0xA # y"
    using code_lines by blast
  then have "js_lines (generateCode_code pm v libs zn) =
     js_lines x @ [js ''cat << EOF > requirements.txt''] @ js_lines (requirementsContent libs) @
       [js ''EOF''] @ js_lines y"
    by (simp only: js_lines_append_newline js_lines_literal)
  then show ?thesis by blast
qed

subsection \<open>Counting occurrences\<close>

text \<open>
  When the text that follows a part \<open>h\<close> blocks every occurrence that would begin in
  \<open>h\<close> and end after it, the occurrences in the whole are those in \<open>h\<close> and those in
  the rest. Comparisons of literal text are decided on the characters.
\<close>

lemma blocked_suffix: "blocked q b \<Longrightarrow> suffix us q \<Longrightarrow> us \<noteq> [] \<Longrightarrow> \<not> prefix us b"
proof (induction q)
  case Nil
  then show ?case by simp
next
  case (Cons x q)
  from Cons.prems(2) have "us = x # q \<or> suffix us q" by (simp add: suffix_Cons)
  then show ?case using Cons by auto
qed

lemma prefix_hole:
  assumes "blocked (tl p) b" and "h \<noteq> []"
  shows "prefix p (h @ b) \<longleftrightarrow> prefix p h"
proof
  assume "prefix p (h @ b)"
  then consider "prefix p h" | us where "p = h @ us" "prefix us b"
    by (auto simp add: prefix_append)
  then show "prefix p h"
  proof cases
    case 1
    then show ?thesis .
  next
    case 2
    show ?thesis
    proof (cases "us = []")
      case True
      with 2 show ?thesis by simp
    next
      case False
      obtain x h' where h: "h = x # h'" using assms(2) by (cases h) auto
      have "suffix us (tl p)" unfolding 2(1) h by (simp add: suffix_def)
      from blocked_suffix [OF assms(1) this False] have "\<not> prefix us b" .
      with 2 show ?thesis by simp
    qed
  qed
next
  assume "prefix p h"
  then show "prefix p (h @ b)" by simp
qed

lemma occurrences_hole:
  "blocked (tl p) b \<Longrightarrow> occurrences p (h @ b) = occurrences p h + occurrences p b"
proof (induction h)
  case Nil
  show ?case by simp
next
  case (Cons x h)
  have "prefix p ((x # h) @ b) \<longleftrightarrow> prefix p (x # h)"
    using Cons.prems by (rule prefix_hole) simp
  then show ?case using Cons by simp
qed

lemma occurrences_absent: "\<not> sublist p s \<Longrightarrow> occurrences p s = 0"
proof (induction s)
  case Nil
  show ?case by simp
next
  case (Cons x s)
  from Cons.prems have "\<not> prefix p (x # s)" "\<not> sublist p s"
    by (auto simp add: sublist_Cons_right)
  with Cons.IH show ?case by simp
qed

lemma cu_eq_iff: "cu c = cu d \<longleftrightarrow> c = d"
proof
  assume "cu c = cu d"
  then have "unat (of_nat (of_char c) :: 16 word) = unat (of_nat (of_char d) :: 16 word)"
    by (simp add: cu_def)
  moreover have "of_char c < (65536::nat)" "of_char d < (65536::nat)"
    using nat_of_char_less_256 [of c] nat_of_char_less_256 [of d] by linarith+
  ultimately have "(of_char c :: nat) = of_char d"
    by (simp add: unat_of_nat take_bit_nat_eq_self)
  then show "c = d" by simp
qed simp

lemma js_Nil: "js [] = []" by (simp add: js_def)

lemma js_Cons: "js (c # cs) = cu c # js cs" by (simp add: js_def)

lemma supportedVersions_cases:
  assumes "v \<in> set supportedVersions"
  obtains "v = js ''3.9''" | "v = js ''3.10''" | "v = js ''3.11''" | "v = js ''3.12''"
    | "v = js ''3.13''"
  using assms by (auto simp add: supportedVersions_def)

lemma cleanup_once_pyenv:
  assumes "occurrences cleanup_commands v = 0" "occurrences cleanup_commands (pyShortVersion v) = 0"
    "occurrences cleanup_commands (requirementsContent libs) = 0"
    "occurrences cleanup_commands (zipName zn) = 0"
  shows "occurrences cleanup_commands (generateCode_code (js ''pyenv'') v libs zn) = 1"
  unfolding code_pyenv manifest_def archive_command_def cleanup_def
  using assms
  by (simp add: js_Nil js_Cons cu_eq_iff cleanup_commands_def occurrences_hole)

lemma cleanup_once_uv:
  assumes "pm \<noteq> js ''pyenv''"
    "occurrences cleanup_commands v = 0" "occurrences cleanup_commands (pyShortVersion v) = 0"
    "occurrences cleanup_commands (requirementsContent libs) = 0"
    "occurrences cleanup_commands (zipName zn) = 0"
  shows "occurrences cleanup_commands (generateCode_code pm v libs zn) = 1"
  unfolding code_uv [OF assms(1)] manifest_def archive_command_def cleanup_def
  using assms(2-)
  by (simp add: js_Nil js_Cons cu_eq_iff cleanup_commands_def occurrences_hole)

lemma supported_no_cleanup:
  assumes "v \<in> set supportedVersions"
  shows "occurrences cleanup_commands v = 0 \<and> occurrences cleanup_commands (pyShortVersion v) = 0"
  using assms
  by (cases rule: supportedVersions_cases)
    (simp_all add: js_Nil js_Cons cu_eq_iff cleanup_commands_def pyShortVersion_def)

lemma version_once_pyenv:
  assumes "v \<in> set supportedVersions"
    and "occurrences v (requirementsContent libs) = 0" and "occurrences v (zipName zn) = 0"
  shows "occurrences v (generateCode_code (js ''pyenv'') v libs zn) = 1"
  using assms
  unfolding code_pyenv manifest_def archive_command_def cleanup_def pyShortVersion_def
  by (cases rule: supportedVersions_cases)
    (simp_all add: js_Nil js_Cons cu_eq_iff occurrences_hole)

lemma version_once_uv:
  assumes "v \<in> set supportedVersions" and "pm \<noteq> js ''pyenv''"
    and "occurrences v (requirementsContent libs) = 0" and "occurrences v (zipName zn) = 0"
  shows "occurrences v (generateCode_code pm v libs zn) = 1"
  using assms(1,3,4)
  unfolding code_uv [OF assms(2)] manifest_def archive_command_def cleanup_def pyShortVersion_def
  by (cases rule: supportedVersions_cases)
    (simp_all add: js_Nil js_Cons cu_eq_iff occurrences_hole)

subsection \<open>The archive command among the lines\<close>

text \<open>
  The lines of both generated texts, written out, when neither the version nor the resolved
  base name holds a line feed; and which of these lines begin with \<^verbatim>\<open>zip \<close> or contain
  \<^verbatim>\<open>zip\<close>.
\<close>

lemma js_lines_hole:
  "0xA \<notin> set h \<Longrightarrow>
     js_lines (h @ s) = (case js_lines s of [] \<Rightarrow> [h] | l # ls \<Rightarrow> (h @ l) # ls)"
proof (induction h)
  case Nil
  show ?case using js_lines_nonempty [of s] by (cases "js_lines s") auto
next
  case (Cons c h)
  obtain l ls where l: "js_lines s = l # ls"
    using js_lines_nonempty [of s] by (cases "js_lines s") auto
  from Cons show ?case by (simp add: l)
qed

lemma js_lines_single: "0xA \<notin> set s \<Longrightarrow> js_lines s = [s]"
  using js_lines_hole [of s "[]"] by simp

lemma set_js_replace: "set (js_replace s pat rep) \<subseteq> set s \<union> set rep"
proof (induction s)
  case Nil
  show ?case by auto
next
  case (Cons x s)
  have "set (drop (length pat) (x # s)) \<subseteq> set (x # s)" by (rule set_drop_subset)
  with Cons show ?case by auto
qed

lemma pyShortVersion_no_newline: "0xA \<notin> set v \<Longrightarrow> 0xA \<notin> set (pyShortVersion v)"
  using set_js_replace [of v "js ''.''" "js ''''"] by (auto simp add: pyShortVersion_def js_def)

lemma supported_no_newline: "v \<in> set supportedVersions \<Longrightarrow> 0xA \<notin> set v"
  by (auto simp add: supportedVersions_def js_def cu_def)

lemma code_js_lines_pyenv:
  assumes "0xA \<notin> set v" and "0xA \<notin> set (zipName zn)"
  shows "js_lines (generateCode_code (js ''pyenv'') v libs zn) =
     [js ''mkdir -p layer-build/ && cd layer-build/'',
      js ''pyenv local '' @ v,
      js ''pyenv which python'',
      js '''',
      js ''cat << EOF > requirements.txt''] @
     js_lines (requirementsContent libs) @
     [js ''EOF'',
      js '''',
      js ''python -m venv create_layer'',
      js ''source create_layer/bin/activate'',
      js ''pip install -r requirements.txt'',
      js ''mkdir -p python'',
      js ''cp -r create_layer/lib python/'',
      js ''zip -r '' @ zipName zn @ js ''-py'' @ pyShortVersion v @ js ''.zip python'',
      js '''',
      js ''# Cleanup'',
      js ''deactivate'',
      js ''rm -rf create_layer/ python/'',
      js '''']"
  using assms pyShortVersion_no_newline [OF assms(1)]
  unfolding code_pyenv manifest_def archive_command_def cleanup_def
  by (simp add: js_def cu_def js_lines_append_newline js_lines_hole js_lines_single)

lemma code_js_lines_uv:
  assumes "pm \<noteq> js ''pyenv''" and "0xA \<notin> set v" and "0xA \<notin> set (zipName zn)"
  shows "js_lines (generateCode_code pm v libs zn) =
     [js ''mkdir -p layer-build/ && cd layer-build/'',
      js ''cat << EOF > requirements.txt''] @
     js_lines (requirementsContent libs) @
     [js ''EOF'',
      js '''',
      js ''uv venv --python '' @ v @ js '' create_layer/'',
      js ''source create_layer/bin/activate'',
      js ''uv pip install -r requirements.txt'',
      js ''mkdir -p python'',
      js ''cp -r create_layer/lib python/'',
      js ''zip -r '' @ zipName zn @ js ''-py'' @ pyShortVersion v @ js ''.zip python'',
      js '''',
      js ''# Cleanup'',
      js ''deactivate'',
      js ''rm -rf create_layer/ python/'',
      js '''']"
  using assms(2,3) pyShortVersion_no_newline [OF assms(2)]
  unfolding code_uv [OF assms(1)] manifest_def archive_command_def cleanup_def
  by (simp add: js_def cu_def js_lines_append_newline js_lines_hole js_lines_single)

lemma first_line_prefix: "prefix (hd (js_lines s)) s"
proof (induction s)
  case Nil
  show ?case by simp
next
  case (Cons c s)
  obtain l ls where l: "js_lines s = l # ls"
    using js_lines_nonempty [of s] by (cases "js_lines s") auto
  from Cons show ?case by (simp add: l)
qed

lemma line_sublist: "l \<in> set (js_lines s) \<Longrightarrow> sublist l s"
proof (induction s)
  case Nil
  then show ?case by simp
next
  case (Cons c s)
  obtain l0 ls where l: "js_lines s = l0 # ls"
    using js_lines_nonempty [of s] by (cases "js_lines s") auto
  show ?case
  proof (cases "c = 0xA")
    case True
    with Cons.prems have "l = [] \<or> l \<in> set (js_lines s)" by simp
    then show ?thesis using Cons.IH by (auto simp add: sublist_Cons_right)
  next
    case False
    with Cons.prems have "l = c # l0 \<or> l \<in> set ls" by (simp add: l)
    then show ?thesis
    proof
      assume "l = c # l0"
      moreover have "prefix l0 s" using first_line_prefix [of s] by (simp add: l)
      ultimately have "prefix l (c # s)" by simp
      then show ?thesis by (rule prefix_imp_sublist)
    next
      assume "l \<in> set ls"
      then have "sublist l s" using Cons.IH by (simp add: l)
      then show ?thesis by (simp add: sublist_Cons_right)
    qed
  qed
qed

lemma absent_in_lines:
  assumes "\<not> sublist p s"
  shows "filter (sublist p) (js_lines s) = []"
proof -
  have "\<not> sublist p l" if "l \<in> set (js_lines s)" for l
  proof
    assume "sublist p l"
    moreover have "sublist l s" using that by (rule line_sublist)
    ultimately have "sublist p s" by (rule sublist_order.order_trans)
    with assms show False by simp
  qed
  then show ?thesis by (simp add: filter_empty_conv)
qed

lemma zip_lines_pyenv:
  assumes "0xA \<notin> set v" and "0xA \<notin> set (zipName zn)"
    and "filter (prefix (js ''zip '')) (js_lines (requirementsContent libs)) = []"
  shows "filter (prefix (js ''zip '')) (js_lines (generateCode_code (js ''pyenv'') v libs zn)) =
     [js ''zip -r '' @ zipName zn @ js ''-py'' @ pyShortVersion v @ js ''.zip python'']"
  using assms(3) unfolding code_js_lines_pyenv [OF assms(1,2)]
  by (simp add: js_Nil js_Cons cu_eq_iff)

lemma zip_lines_uv:
  assumes "pm \<noteq> js ''pyenv''" and "0xA \<notin> set v" and "0xA \<notin> set (zipName zn)"
    and "filter (prefix (js ''zip '')) (js_lines (requirementsContent libs)) = []"
  shows "filter (prefix (js ''zip '')) (js_lines (generateCode_code pm v libs zn)) =
     [js ''zip -r '' @ zipName zn @ js ''-py'' @ pyShortVersion v @ js ''.zip python'']"
  using assms(4) unfolding code_js_lines_uv [OF assms(1,2,3)]
  by (simp add: js_Nil js_Cons cu_eq_iff)

lemma zip_mentions_pyenv:
  assumes "v \<in> set supportedVersions" and "0xA \<notin> set (zipName zn)"
    and "filter (sublist (js ''zip'')) (js_lines (requirementsContent libs)) = []"
  shows "filter (sublist (js ''zip'')) (js_lines (generateCode_code (js ''pyenv'') v libs zn)) =
     [js ''zip -r '' @ zipName zn @ js ''-py'' @ pyShortVersion v @ js ''.zip python'']"
  unfolding code_js_lines_pyenv [OF supported_no_newline [OF assms(1)] assms(2)]
  using assms(1,3)
  by (cases rule: supportedVersions_cases)
    (simp_all add: sublist_code(3) js_Nil js_Cons cu_eq_iff)

lemma zip_mentions_uv:
  assumes "pm \<noteq> js ''pyenv''" and "v \<in> set supportedVersions" and "0xA \<notin> set (zipName zn)"
    and "filter (sublist (js ''zip'')) (js_lines (requirementsContent libs)) = []"
  shows "filter (sublist (js ''zip'')) (js_lines (generateCode_code pm v libs zn)) =
     [js ''zip -r '' @ zipName zn @ js ''-py'' @ pyShortVersion v @ js ''.zip python'']"
  unfolding code_js_lines_uv [OF assms(1) supported_no_newline [OF assms(2)] assms(3)]
  using assms(2,4)
  by (cases rule: supportedVersions_cases)
    (simp_all add: sublist_code(3) js_Nil js_Cons cu_eq_iff)

subsection \<open>The states of the page\<close>

lemma js_pyenv_neq_uv: "js ''pyenv'' \<noteq> js ''uv''"
  by (simp add: js_def cu_def)

lemma packageManager_generateCode:
  "generateCode pg = Inr pg' \<Longrightarrow> packageManager pg' = packageManager pg"
  by (auto simp add: generateCode_def split: option.splits)

lemma packageManager_then_generateCode:
  "packageManager (fst (then_generateCode pg)) = packageManager pg"
  by (auto simp add: then_generateCode_def generateCode_def split: option.splits sum.splits)

lemma packageManager_handle:
  "packageManager (fst (handle ev pg)) \<in> {packageManager pg, js ''pyenv'', js ''uv''}"
  by (cases ev) (simp_all add: packageManager_then_generateCode)

lemma reachable_packageManager:
  "reachable pg \<Longrightarrow> packageManager pg = js ''pyenv'' \<or> packageManager pg = js ''uv''"
proof (induction rule: reachable.induct)
  case (loaded pg0 pg)
  then show ?case
    by (auto simp add: DOMContentLoaded_def dest: packageManager_generateCode)
next
  case (event pg ev)
  then show ?case using packageManager_handle [of ev pg] by auto
qed

lemma reachable_sample_page: "reachable (sample_page dv)"
proof -
  have "DOMContentLoaded (sample_page dv) = Inr (sample_page dv)"
    by (simp add: DOMContentLoaded_def generateCode_def sample_page_def)
  then show ?thesis by (rule reachable.loaded)
qed

section \<open>The claims\<close>

subsection \<open>C1: the version and the archive command\<close>

text \<open>
  As first stated, C1 fails in two ways. The archive command is the same line in both
  templates, \<^verbatim>\<open>zip -r <base>-py<short>.zip python\<close>: its tag \<^verbatim>\<open>py\<close> does not depend on
  the strategy. And the version string can occur in what the user entered: with the base
  name \<^verbatim>\<open>layer-3.10\<close> the text for version 3.10 contains \<^verbatim>\<open>3.10\<close> twice.
\<close>

theorem C1_counterexample:
  "js ''3.10'' \<in> set supportedVersions \<and>
   filter (prefix (js ''zip '')) (js_lines (generateCode_code (js ''pyenv'') (js ''3.10'') [] [])) =
     [js ''zip -r lambda-layer-py310.zip python''] \<and>
   filter (prefix (js ''zip '')) (js_lines (generateCode_code (js ''uv'') (js ''3.10'') [] [])) =
     [js ''zip -r lambda-layer-py310.zip python''] \<and>
   occurrences (js ''3.10'')
     (generateCode_code (js ''pyenv'') (js ''3.10'') [] (js ''layer-3.10'')) = 2"
proof -
  have "js ''3.10'' \<in> set supportedVersions" by (simp add: supportedVersions_def)
  moreover have "filter (prefix (js ''zip ''))
      (js_lines (generateCode_code (js ''pyenv'') (js ''3.10'') [] [])) =
     [js ''zip -r lambda-layer-py310.zip python'']"
    by (simp add: generateCode_code_def js_or_def trim_def trimStart_def trimEnd_def
        js_def cu_def)
  moreover have "filter (prefix (js ''zip ''))
      (js_lines (generateCode_code (js ''uv'') (js ''3.10'') [] [])) =
     [js ''zip -r lambda-layer-py310.zip python'']"
    by (simp add: generateCode_code_def js_or_def trim_def trimStart_def trimEnd_def
        js_def cu_def)
  moreover have "occurrences (js ''3.10'')
     (generateCode_code (js ''pyenv'') (js ''3.10'') [] (js ''layer-3.10'')) = 2"
    by (simp add: generateCode_code_def js_or_def trim_def trimStart_def trimEnd_def
        isWhiteSpace_def js_def cu_def)
  ultimately show ?thesis by blast
qed

text \<open>
  C1, amended: for every supported version and every strategy,
  \<^item> if the resolved dependency text and the resolved base name do not contain the version
    string, the generated text contains the version string exactly once;
  \<^item> if the resolved base name holds no line feed and no line of the resolved dependency
    text begins with \<^verbatim>\<open>zip \<close>, exactly one line of the generated text begins with
    \<^verbatim>\<open>zip \<close>, and it is the archive command \<^verbatim>\<open>zip -r <base>-py<short>.zip python\<close>;
  \<^item> if the resolved base name holds no line feed and the resolved dependency text does not
    contain \<^verbatim>\<open>zip\<close>, the archive command is the only line of the generated text that
    contains \<^verbatim>\<open>zip\<close>;
  \<^item> the generated text contains the archive command, whose archive name embeds the
    resolved base name and the tag \<^verbatim>\<open>py\<close> with the short version, the same for every
    strategy.
\<close>

theorem C1_version_and_archive_once:
  assumes "v \<in> set supportedVersions"
  shows "(\<not> sublist v (requirementsContent libs) \<longrightarrow> \<not> sublist v (zipName zn) \<longrightarrow>
            occurrences v (generateCode_code pm v libs zn) = 1) \<and>
         (0xA \<notin> set (zipName zn) \<longrightarrow>
          (\<forall>l\<in>set (js_lines (requirementsContent libs)). \<not> prefix (js ''zip '') l) \<longrightarrow>
            filter (prefix (js ''zip '')) (js_lines (generateCode_code pm v libs zn)) =
              [js ''zip -r '' @ zipName zn @ js ''-py'' @ pyShortVersion v @ js ''.zip python'']) \<and>
         (0xA \<notin> set (zipName zn) \<longrightarrow> \<not> sublist (js ''zip'') (requirementsContent libs) \<longrightarrow>
            filter (sublist (js ''zip'')) (js_lines (generateCode_code pm v libs zn)) =
              [js ''zip -r '' @ zipName zn @ js ''-py'' @ pyShortVersion v @ js ''.zip python'']) \<and>
         sublist (js ''zip -r '' @ zipName zn @ js ''-py'' @ pyShortVersion v @
             js ''.zip python\<newline>'')
           (generateCode_code pm v libs zn)"
proof -
  note nv = supported_no_newline [OF assms]
  have 1: "occurrences v (generateCode_code pm v libs zn) = 1"
    if "\<not> sublist v (requirementsContent libs)" and "\<not> sublist v (zipName zn)"
  proof (cases "pm = js ''pyenv''")
    case True
    show ?thesis unfolding True
      using assms occurrences_absent [OF that(1)] occurrences_absent [OF that(2)]
      by (rule version_once_pyenv)
  next
    case False
    show ?thesis
      using assms False occurrences_absent [OF that(1)] occurrences_absent [OF that(2)]
      by (rule version_once_uv)
  qed
  have 2: "filter (prefix (js ''zip '')) (js_lines (generateCode_code pm v libs zn)) =
      [js ''zip -r '' @ zipName zn @ js ''-py'' @ pyShortVersion v @ js ''.zip python'']"
    if z: "0xA \<notin> set (zipName zn)"
      and r: "\<forall>l\<in>set (js_lines (requirementsContent libs)). \<not> prefix (js ''zip '') l"
  proof -
    from r have f: "filter (prefix (js ''zip '')) (js_lines (requirementsContent libs)) = []"
      by (simp add: filter_empty_conv)
    show ?thesis
    proof (cases "pm = js ''pyenv''")
      case True
      show ?thesis unfolding True using nv z f by (rule zip_lines_pyenv)
    next
      case False
      show ?thesis using False nv z f by (rule zip_lines_uv)
    qed
  qed
  have 3: "filter (sublist (js ''zip'')) (js_lines (generateCode_code pm v libs zn)) =
      [js ''zip -r '' @ zipName zn @ js ''-py'' @ pyShortVersion v @ js ''.zip python'']"
    if z: "0xA \<notin> set (zipName zn)" and r: "\<not> sublist (js ''zip'') (requirementsContent libs)"
  proof (cases "pm = js ''pyenv''")
    case True
    show ?thesis unfolding True using assms z absent_in_lines [OF r] by (rule zip_mentions_pyenv)
  next
    case False
    show ?thesis using False assms z absent_in_lines [OF r] by (rule zip_mentions_uv)
  qed
  have 4: "sublist (js ''zip -r '' @ zipName zn @ js ''-py'' @ pyShortVersion v @
      js ''.zip python\<newline>'') (generateCode_code pm v libs zn)"
    using sublist_archive_command [of zn v pm libs] by (simp add: archive_command_def)
  from 1 2 3 4 show ?thesis by blast
qed

theorem C1_witness:
  "js ''3.13'' \<in> set supportedVersions \<and>
   occurrences (js ''3.13'')
     (generateCode_code (js ''uv'') (js ''3.13'') (js ''numpy==2.0\<newline>pandas==2.2'') (js ''my-layer'')) = 1 \<and>
   filter (prefix (js ''zip ''))
     (js_lines (generateCode_code (js ''uv'') (js ''3.13'') (js ''numpy==2.0\<newline>pandas==2.2'')
        (js ''my-layer''))) = [js ''zip -r my-layer-py313.zip python''] \<and>
   filter (sublist (js ''zip''))
     (js_lines (generateCode_code (js ''uv'') (js ''3.13'') (js ''numpy==2.0\<newline>pandas==2.2'')
        (js ''my-layer''))) = [js ''zip -r my-layer-py313.zip python''] \<and>
   sublist (js ''zip -r my-layer-py313.zip python\<newline>'')
     (generateCode_code (js ''uv'') (js ''3.13'') (js ''numpy==2.0\<newline>pandas==2.2'') (js ''my-layer''))"
proof -
  have v: "js ''3.13'' \<in> set supportedVersions" by (simp add: supportedVersions_def)
  have r: "requirementsContent (js ''numpy==2.0\<newline>pandas==2.2'') = js ''numpy==2.0\<newline>pandas==2.2''"
    by (simp add: requirementsContent_def js_or_def trim_def trimStart_def trimEnd_def
        isWhiteSpace_def js_def cu_def)
  have z: "zipName (js ''my-layer'') = js ''my-layer''"
    by (simp add: zipName_def js_or_def trim_def trimStart_def trimEnd_def
        isWhiteSpace_def js_def cu_def)
  have s: "pyShortVersion (js ''3.13'') = js ''313''"
    by (simp add: pyShortVersion_def js_def cu_def)
  have 1: "\<not> sublist (js ''3.13'') (requirementsContent (js ''numpy==2.0\<newline>pandas==2.2''))"
    unfolding r by (simp add: sublist_code(3) js_Nil js_Cons cu_eq_iff)
  have 2: "\<not> sublist (js ''3.13'') (zipName (js ''my-layer''))"
    unfolding z by (simp add: sublist_code(3) js_Nil js_Cons cu_eq_iff)
  have 3: "0xA \<notin> set (zipName (js ''my-layer''))"
    unfolding z by (simp add: js_def cu_def)
  have 4: "\<forall>l\<in>set (js_lines (requirementsContent (js ''numpy==2.0\<newline>pandas==2.2''))).
      \<not> prefix (js ''zip '') l"
    unfolding r by (simp add: js_def cu_def)
  have 5: "\<not> sublist (js ''zip'') (requirementsContent (js ''numpy==2.0\<newline>pandas==2.2''))"
    unfolding r by (simp add: sublist_code(3) js_Nil js_Cons cu_eq_iff)
  have a: "js ''zip -r '' @ js ''my-layer'' @ js ''-py'' @ js ''313'' @ js ''.zip python\<newline>'' =
      js ''zip -r my-layer-py313.zip python\<newline>''"
    "js ''zip -r '' @ js ''my-layer'' @ js ''-py'' @ js ''313'' @ js ''.zip python'' =
      js ''zip -r my-layer-py313.zip python''"
    by (simp_all add: js_def)
  from C1_version_and_archive_once [OF v, of "js ''numpy==2.0\<newline>pandas==2.2''"
      "js ''my-layer''" "js ''uv''"] 1 2 3 4 5
  have "occurrences (js ''3.13'')
     (generateCode_code (js ''uv'') (js ''3.13'') (js ''numpy==2.0\<newline>pandas==2.2'') (js ''my-layer'')) = 1 \<and>
   filter (prefix (js ''zip ''))
     (js_lines (generateCode_code (js ''uv'') (js ''3.13'') (js ''numpy==2.0\<newline>pandas==2.2'')
        (js ''my-layer''))) =
     [js ''zip -r '' @ zipName (js ''my-layer'') @ js ''-py'' @ pyShortVersion (js ''3.13'') @
        js ''.zip python''] \<and>
   filter (sublist (js ''zip''))
     (js_lines (generateCode_code (js ''uv'') (js ''3.13'') (js ''numpy==2.0\<newline>pandas==2.2'')
        (js ''my-layer''))) =
     [js ''zip -r '' @ zipName (js ''my-layer'') @ js ''-py'' @ pyShortVersion (js ''3.13'') @
        js ''.zip python''] \<and>
   sublist (js ''zip -r '' @ zipName (js ''my-layer'') @ js ''-py'' @ pyShortVersion (js ''3.13'') @
       js ''.zip python\<newline>'')
     (generateCode_code (js ''uv'') (js ''3.13'') (js ''numpy==2.0\<newline>pandas==2.2'') (js ''my-layer''))"
    by blast
  with v show ?thesis by (simp only: z s a) 
qed

subsection \<open>C2: the dependency text in the manifest\<close>

text \<open>
  As first stated, C2 fails: \<^verbatim>\<open>generateCode\<close> trims the dependency text, so the entered
  text \<^verbatim>\<open>" numpy"\<close> with its leading blank occurs nowhere in the generated text.
\<close>

theorem C2_counterexample:
  "\<not> list_all isWhiteSpace (js '' numpy'') \<and>
   \<not> sublist (js '' numpy'')
      (generateCode_code (js ''pyenv'') (js ''3.10'') (js '' numpy'') [])"
  by (simp add: generateCode_code_def js_def cu_def js_or_def trim_def trimStart_def trimEnd_def
      isWhiteSpace_def sublist_code)

text \<open>
  C2, amended: for every dependency text that is not empty and not white space only, the
  manifest of the generated text holds the trimmed dependency text, which is the entered
  text without the white space at its two ends: it begins and ends with a character that
  is not white space, and everything between is embedded as entered, in order, interior
  lines untrimmed, no repeated line dropped.
\<close>

theorem C2_trimmed_verbatim:
  assumes "\<not> list_all isWhiteSpace libs"
  shows "sublist (manifest (trim libs)) (generateCode_code pm v libs zn) \<and>
         (\<exists>a b. libs = a @ trim libs @ b \<and> list_all isWhiteSpace a \<and> list_all isWhiteSpace b) \<and>
         \<not> isWhiteSpace (hd (trim libs)) \<and> \<not> isWhiteSpace (last (trim libs))"
proof -
  have ne: "trim libs \<noteq> []" using assms by (simp add: trim_empty_iff)
  have 1: "sublist (manifest (trim libs)) (generateCode_code pm v libs zn)"
    using sublist_manifest [of libs pm v zn] by (simp only: requirementsContent_given [OF assms])
  let ?a = "takeWhile isWhiteSpace libs"
  let ?b = "rev (takeWhile isWhiteSpace (rev (trimStart libs)))"
  have "list_all isWhiteSpace ?a" "list_all isWhiteSpace ?b"
    by (auto simp add: list_all_iff dest: set_takeWhileD)
  with trim_decomp [of libs]
  have 2: "\<exists>a b. libs = a @ trim libs @ b \<and> list_all isWhiteSpace a \<and> list_all isWhiteSpace b"
    by blast
  from 1 2 trim_hd [OF ne] trim_last [OF ne] show ?thesis by blast
qed

theorem C2_witness:
  "\<not> list_all isWhiteSpace (js '' numpy \<newline>  pandas\<newline>'') \<and>
   trim (js '' numpy \<newline>  pandas\<newline>'') = js ''numpy \<newline>  pandas'' \<and>
   sublist (manifest (js ''numpy \<newline>  pandas''))
     (generateCode_code (js ''uv'') (js ''3.10'') (js '' numpy \<newline>  pandas\<newline>'') [])"
proof -
  have h: "\<not> list_all isWhiteSpace (js '' numpy \<newline>  pandas\<newline>'')"
    by (simp add: js_def cu_def isWhiteSpace_def)
  have t: "trim (js '' numpy \<newline>  pandas\<newline>'') = js ''numpy \<newline>  pandas''"
    by (simp add: trim_def trimStart_def trimEnd_def isWhiteSpace_def js_def cu_def)
  from C2_trimmed_verbatim [OF h, of "js ''uv''" "js ''3.10''" "[]"] h t
  show ?thesis by simp
qed

subsection \<open>C3: the default dependency line\<close>

text \<open>
  C3: a dependency text that is empty or white space only gives the same generated text
  as the empty one, and that text holds the default line \<^verbatim>\<open>requests==2.32.3\<close> in its
  manifest.
\<close>

theorem C3_default_dependency:
  assumes "list_all isWhiteSpace libs"
  shows "generateCode_code pm v libs zn = generateCode_code pm v [] zn \<and>
         sublist (manifest (js ''requests==2.32.3'')) (generateCode_code pm v [] zn)"
proof -
  have e: "requirementsContent [] = js ''requests==2.32.3''"
    by (rule requirementsContent_blank) simp
  have "generateCode_code pm v libs zn = generateCode_code pm v [] zn"
    by (rule code_cong) (simp_all add: requirementsContent_blank [OF assms] e)
  moreover have "sublist (manifest (js ''requests==2.32.3'')) (generateCode_code pm v [] zn)"
    using sublist_manifest [of "[]" pm v zn] by (simp only: e)
  ultimately show ?thesis by simp
qed

theorem C3_witness:
  "list_all isWhiteSpace (js ''  '') \<and>
   generateCode_code (js ''uv'') (js ''3.12'') (js ''  '') (js ''x'') =
     generateCode_code (js ''uv'') (js ''3.12'') [] (js ''x'') \<and>
   sublist (manifest (js ''requests==2.32.3''))
     (generateCode_code (js ''uv'') (js ''3.12'') [] (js ''x''))"
proof -
  have h: "list_all isWhiteSpace (js ''  '')" by (simp add: js_def cu_def isWhiteSpace_def)
  from C3_default_dependency [OF h, of "js ''uv''" "js ''3.12''" "js ''x''"] h
  show ?thesis by simp
qed

subsection \<open>C4: the default base name\<close>

text \<open>
  C4: a base name that is empty or white space only gives the archive command of the
  default base name \<^verbatim>\<open>lambda-layer\<close>; and for the legacy strategy, version 3.11, empty
  dependency text and empty base name the generated text is the one written out here, with
  the default dependency line, the default base name and the version token 311 in the
  archive command.
\<close>

theorem C4_default_base_name:
  assumes "list_all isWhiteSpace zn"
  shows "sublist (archive_command (js ''lambda-layer'') (pyShortVersion v))
           (generateCode_code pm v libs zn) \<and>
         generateCode_code (js ''pyenv'') (js ''3.11'') [] [] =
           js ''mkdir -p layer-build/ && cd layer-build/\<newline>pyenv local 3.11\<newline>pyenv which python\<newline>\<newline>cat << EOF > requirements.txt\<newline>requests==2.32.3\<newline>EOF\<newline>\<newline>python -m venv create_layer\<newline>source create_layer/bin/activate\<newline>pip install -r requirements.txt\<newline>mkdir -p python\<newline>cp -r create_layer/lib python/\<newline>zip -r lambda-layer-py311.zip python\<newline>\<newline># Cleanup\<newline>deactivate\<newline>rm -rf create_layer/ python/\<newline>''"
proof -
  have "sublist (archive_command (js ''lambda-layer'') (pyShortVersion v))
           (generateCode_code pm v libs zn)"
    using sublist_archive_command [of zn v pm libs] by (simp only: zipName_blank [OF assms])
  moreover have "generateCode_code (js ''pyenv'') (js ''3.11'') [] [] =
           js ''mkdir -p layer-build/ && cd layer-build/\<newline>pyenv local 3.11\<newline>pyenv which python\<newline>\<newline>cat << EOF > requirements.txt\<newline>requests==2.32.3\<newline>EOF\<newline>\<newline>python -m venv create_layer\<newline>source create_layer/bin/activate\<newline>pip install -r requirements.txt\<newline>mkdir -p python\<newline>cp -r create_layer/lib python/\<newline>zip -r lambda-layer-py311.zip python\<newline>\<newline># Cleanup\<newline>deactivate\<newline>rm -rf create_layer/ python/\<newline>''"
    by (simp add: generateCode_code_def js_def cu_def js_or_def trim_def trimStart_def trimEnd_def)
  ultimately show ?thesis by (rule conjI)
qed

theorem C4_witness:
  "list_all isWhiteSpace (js '' '') \<and>
   sublist (js ''zip -r lambda-layer-py311.zip python\<newline>'')
     (generateCode_code (js ''uv'') (js ''3.11'') (js ''boto3'') (js '' ''))"
proof -
  have h: "list_all isWhiteSpace (js '' '')" by (simp add: js_def cu_def isWhiteSpace_def)
  have "archive_command (js ''lambda-layer'') (js ''311'') =
      js ''zip -r lambda-layer-py311.zip python\<newline>''"
    by (simp add: archive_command_def js_def cu_def)
  with C4_default_base_name [OF h, of "js ''3.11''" "js ''uv''" "js ''boto3''"] h
  show ?thesis by (simp add: pyShortVersion_311)
qed

subsection \<open>C5: the cleanup commands\<close>

text \<open>
  As first stated, C5 fails: the cleanup commands can occur in what the user entered. With
  a dependency text that closes the here-document and repeats them, the generated text
  contains them twice.
\<close>

theorem C5_counterexample:
  "js ''3.10'' \<in> set supportedVersions \<and>
   occurrences cleanup_commands
     (generateCode_code (js ''pyenv'') (js ''3.10'')
        (js ''requests\<newline>EOF\<newline>deactivate\<newline>rm -rf create_layer/ python/\<newline>cat << EOF'') []) = 2"
  by (simp add: generateCode_code_def supportedVersions_def cleanup_commands_def js_or_def
      trim_def trimStart_def trimEnd_def isWhiteSpace_def js_def cu_def)

text \<open>
  C5, amended: every generated text, whatever the version and the strategy, ends with the
  archive command followed by the fixed cleanup text (a blank line, the comment,
  \<^verbatim>\<open>deactivate\<close> and \<^verbatim>\<open>rm -rf create_layer/ python/\<close>, each on a line of its own and
  with no test of an earlier step); and for every supported version, if the resolved
  dependency text and the resolved base name do not contain the cleanup commands
  themselves, the generated text contains them exactly once.
\<close>

theorem C5_cleanup_once_at_end:
  "suffix (archive_command (zipName zn) (pyShortVersion v) @ cleanup)
     (generateCode_code pm v libs zn) \<and>
   cleanup = js ''\<newline># Cleanup\<newline>'' @ cleanup_commands @ js ''\<newline>'' \<and>
   (v \<in> set supportedVersions \<longrightarrow>
    \<not> sublist cleanup_commands (requirementsContent libs) \<longrightarrow>
    \<not> sublist cleanup_commands (zipName zn) \<longrightarrow>
      occurrences cleanup_commands (generateCode_code pm v libs zn) = 1)"
proof -
  have "occurrences cleanup_commands (generateCode_code pm v libs zn) = 1"
    if v: "v \<in> set supportedVersions"
      and r: "\<not> sublist cleanup_commands (requirementsContent libs)"
      and z: "\<not> sublist cleanup_commands (zipName zn)"
  proof -
    note h = supported_no_cleanup [OF v] occurrences_absent [OF r] occurrences_absent [OF z]
    show ?thesis
    proof (cases "pm = js ''pyenv''")
      case True
      show ?thesis unfolding True using h by (intro cleanup_once_pyenv) simp_all
    next
      case False
      show ?thesis using False h by (intro cleanup_once_uv) simp_all
    qed
  qed
  with code_ends [of zn v pm libs] cleanup_shape show ?thesis by blast
qed

theorem C5_witness:
  "js ''3.12'' \<in> set supportedVersions \<and>
   \<not> sublist cleanup_commands (requirementsContent (js ''boto3'')) \<and>
   \<not> sublist cleanup_commands (zipName (js ''my-layer'')) \<and>
   occurrences cleanup_commands
     (generateCode_code (js ''uv'') (js ''3.12'') (js ''boto3'') (js ''my-layer'')) = 1 \<and>
   suffix (archive_command (zipName (js ''my-layer'')) (pyShortVersion (js ''3.12'')) @ cleanup)
     (generateCode_code (js ''uv'') (js ''3.12'') (js ''boto3'') (js ''my-layer''))"
proof -
  have v: "js ''3.12'' \<in> set supportedVersions" by (simp add: supportedVersions_def)
  have r: "\<not> sublist cleanup_commands (requirementsContent (js ''boto3''))"
    by (simp add: requirementsContent_def js_or_def trim_def trimStart_def trimEnd_def
        isWhiteSpace_def cleanup_commands_def sublist_code(3) js_def cu_def)
  have z: "\<not> sublist cleanup_commands (zipName (js ''my-layer''))"
    by (simp add: zipName_def js_or_def trim_def trimStart_def trimEnd_def
        isWhiteSpace_def cleanup_commands_def sublist_code(3) js_def cu_def)
  from C5_cleanup_once_at_end [of "js ''my-layer''" "js ''3.12''" "js ''uv''" "js ''boto3''"]
    v r z show ?thesis by blast
qed

subsection \<open>C6: a dependency line that ends the here-document\<close>

text \<open>
  C6: when a line of the dependency text is \<^verbatim>\<open>EOF\<close>, the lines of the generated text
  are still the line that opens the here-document, then the lines of the trimmed
  dependency text unchanged, among them that line, then the template's own \<^verbatim>\<open>EOF\<close>
  line: the generated text has at least two \<^verbatim>\<open>EOF\<close> lines, and \<^verbatim>\<open>generateCode\<close>
  writes it without an error.
\<close>

theorem C6_heredoc_terminator_not_escaped:
  assumes "js ''EOF'' \<in> set (js_lines libs)"
  shows "js ''EOF'' \<in> set (js_lines (trim libs)) \<and>
         (\<exists>pre post. js_lines (generateCode_code pm v libs zn) =
            pre @ [js ''cat << EOF > requirements.txt''] @ js_lines (trim libs) @
              [js ''EOF''] @ post) \<and>
         2 \<le> length (filter (\<lambda>l. l = js ''EOF'') (js_lines (generateCode_code pm v libs zn))) \<and>
         generateCode (pg\<lparr>selectedVersion := Some v, packageManager := pm,
             librariesTextarea_value := libs, zipNameInput_value := zn\<rparr>) =
           Inr (pg\<lparr>selectedVersion := Some v, packageManager := pm,
             librariesTextarea_value := libs, zipNameInput_value := zn,
             generatedCode_textContent := generateCode_code pm v libs zn\<rparr>)"
proof -
  have t: "js ''EOF'' \<in> set (js_lines (trim libs))"
    using assms by (rule EOF_survives_trim)
  have "trim libs \<noteq> []"
  proof
    assume "trim libs = []"
    with t show False by (simp add: js_def cu_def)
  qed
  then have r: "requirementsContent libs = trim libs"
    by (simp add: requirementsContent_def js_or_def)
  obtain pre post where s: "js_lines (generateCode_code pm v libs zn) =
            pre @ [js ''cat << EOF > requirements.txt''] @ js_lines (trim libs) @
              [js ''EOF''] @ post"
    using code_js_lines [of pm v libs zn] unfolding r by blast
  have "1 \<le> length (filter (\<lambda>l. l = js ''EOF'') (js_lines (trim libs)))"
    using t by (rule member_filter_length)
  then have "2 \<le> length (filter (\<lambda>l. l = js ''EOF'') (js_lines (generateCode_code pm v libs zn)))"
    unfolding s by simp
  moreover have "generateCode (pg\<lparr>selectedVersion := Some v, packageManager := pm,
             librariesTextarea_value := libs, zipNameInput_value := zn\<rparr>) =
           Inr (pg\<lparr>selectedVersion := Some v, packageManager := pm,
             librariesTextarea_value := libs, zipNameInput_value := zn,
             generatedCode_textContent := generateCode_code pm v libs zn\<rparr>)"
    by (simp add: generateCode_def)
  ultimately show ?thesis using s t by blast
qed

theorem C6_witness:
  "js ''EOF'' \<in> set (js_lines (js ''numpy\<newline>EOF\<newline>pandas\<newline>'')) \<and>
   2 \<le> length (filter (\<lambda>l. l = js ''EOF'')
     (js_lines (generateCode_code (js ''uv'') (js ''3.10'')
        (js ''numpy\<newline>EOF\<newline>pandas\<newline>'') [])))"
proof -
  have h: "js ''EOF'' \<in> set (js_lines (js ''numpy\<newline>EOF\<newline>pandas\<newline>''))"
    by (simp add: js_def cu_def)
  from C6_heredoc_terminator_not_escaped [OF h, of "js ''uv''" "js ''3.10''" "[]"] h
  show ?thesis by blast
qed

subsection \<open>C7: one strategy at a time\<close>

text \<open>
  C7: in every state the page can reach, the strategy variable holds \<^verbatim>\<open>'pyenv'\<close> (the
  legacy variant) or \<^verbatim>\<open>'uv'\<close> (the fast variant), two different values; and after a click
  on the fast variant's button it holds \<^verbatim>\<open>'uv'\<close>, that button alone is marked selected,
  and the state is again a reachable one.
\<close>

theorem C7_one_strategy:
  assumes "reachable pg"
  shows "(packageManager pg = js ''pyenv'' \<or> packageManager pg = js ''uv'') \<and>
         js ''pyenv'' \<noteq> js ''uv'' \<and>
         packageManager (fst (handle UvClick pg)) = js ''uv'' \<and>
         uvBtn_selected (fst (handle UvClick pg)) \<and>
         \<not> pyenvBtn_selected (fst (handle UvClick pg)) \<and>
         reachable (fst (handle UvClick pg))"
proof -
  have "uvBtn_selected (fst (handle UvClick pg)) \<and> \<not> pyenvBtn_selected (fst (handle UvClick pg))"
    by (simp add: then_generateCode_def generateCode_def split: option.splits)
  moreover have "packageManager (fst (handle UvClick pg)) = js ''uv''"
    by (simp add: packageManager_then_generateCode)
  ultimately show ?thesis
    using reachable_packageManager [OF assms] js_pyenv_neq_uv reachable.event [OF assms, of UvClick]
    by blast
qed

theorem C7_witness:
  "reachable (fst (handle PyenvClick (fst (handle UvClick (sample_page None))))) \<and>
   packageManager (fst (handle PyenvClick (fst (handle UvClick (sample_page None))))) =
     js ''pyenv'' \<and>
   packageManager (fst (handle UvClick (fst (handle PyenvClick
     (fst (handle UvClick (sample_page None))))))) = js ''uv''"
proof -
  have r: "reachable (fst (handle PyenvClick (fst (handle UvClick (sample_page None)))))"
    by (intro reachable.event reachable_sample_page)
  have "packageManager (fst (handle PyenvClick (fst (handle UvClick (sample_page None))))) \<noteq>
      js ''uv''"
    by (simp add: packageManager_then_generateCode js_pyenv_neq_uv)
  with C7_one_strategy [OF r] r show ?thesis by blast
qed

subsection \<open>C8: selecting a version\<close>

text \<open>
  As first stated, C8 fails: nothing validates the version. On a loaded page whose button
  carries \<^verbatim>\<open>2.7\<close>, which is not a supported version, a click replaces the selected version
  3.10 by 2.7 and regenerates the text, and no error arises.
\<close>

theorem C8_counterexample:
  "js ''2.7'' \<notin> set supportedVersions \<and>
   reachable (sample_page (Some (js ''2.7''))) \<and>
   selectedVersion (sample_page (Some (js ''2.7''))) = Some (js ''3.10'') \<and>
   handle (VersionClick 0) (sample_page (Some (js ''2.7''))) =
     (\<lparr>selectedVersion = Some (js ''2.7''), packageManager = js ''pyenv'',
       versionButtons = [\<lparr>dataset_version = Some (js ''2.7''), btn_selected = True\<rparr>],
       pyenvBtn_selected = True, uvBtn_selected = False,
       librariesTextarea_value = [], zipNameInput_value = [],
       generatedCode_textContent = generateCode_code (js ''pyenv'') (js ''2.7'') [] []\<rparr>, None) \<and>
   generateCode_code (js ''pyenv'') (js ''2.7'') [] [] \<noteq>
     generatedCode_textContent (sample_page (Some (js ''2.7'')))"
proof -
  have "js ''2.7'' \<notin> set supportedVersions"
    by (simp add: supportedVersions_def js_def cu_def)
  moreover have "selectedVersion (sample_page (Some (js ''2.7''))) = Some (js ''3.10'')"
    by (simp add: sample_page_def)
  moreover have "handle (VersionClick 0) (sample_page (Some (js ''2.7''))) =
     (\<lparr>selectedVersion = Some (js ''2.7''), packageManager = js ''pyenv'',
       versionButtons = [\<lparr>dataset_version = Some (js ''2.7''), btn_selected = True\<rparr>],
       pyenvBtn_selected = True, uvBtn_selected = False,
       librariesTextarea_value = [], zipNameInput_value = [],
       generatedCode_textContent = generateCode_code (js ''pyenv'') (js ''2.7'') [] []\<rparr>, None)"
    by (simp add: sample_page_def then_generateCode_def generateCode_def)
  moreover have "generateCode_code (js ''pyenv'') (js ''2.7'') [] [] \<noteq>
     generatedCode_textContent (sample_page (Some (js ''2.7'')))"
    by (simp add: sample_page_def code_pyenv) (simp add: js_def cu_def)
  ultimately show ?thesis using reachable_sample_page by blast
qed

text \<open>
  C8, amended: for every version string carried by the clicked button, supported or not,
  the click handler marks that button, sets the selected version to the string and
  regenerates the text for it; no error is signalled.
\<close>

theorem C8_version_click_unvalidated:
  assumes "i < length (versionButtons pg)"
    and "dataset_version (versionButtons pg ! i) = Some v"
  shows "handle (VersionClick i) pg =
     (pg\<lparr>versionButtons :=
          (map (\<lambda>b. b\<lparr>btn_selected := False\<rparr>) (versionButtons pg))
            [i := (versionButtons pg ! i)\<lparr>btn_selected := True\<rparr>],
        selectedVersion := Some v,
        generatedCode_textContent :=
          generateCode_code (packageManager pg) v
            (librariesTextarea_value pg) (zipNameInput_value pg)\<rparr>, None)"
  using assms by (simp add: then_generateCode_def generateCode_def)

theorem C8_witness:
  "selectedVersion (fst (handle (VersionClick 0) (sample_page (Some (js ''3.12''))))) =
     Some (js ''3.12'') \<and>
   generatedCode_textContent (fst (handle (VersionClick 0) (sample_page (Some (js ''3.12''))))) =
     generateCode_code (js ''pyenv'') (js ''3.12'') [] [] \<and>
   snd (handle (VersionClick 0) (sample_page (Some (js ''3.12'')))) = None"
  using C8_version_click_unvalidated [of 0 "sample_page (Some (js ''3.12''))" "js ''3.12''"]
  by (simp add: sample_page_def)

subsection \<open>C9: generation is a function of the configuration\<close>

text \<open>
  C9: two pages with the same version, strategy, dependency text and base name get the
  same generated text (or the same error), whatever else differs; and calling
  \<^verbatim>\<open>generateCode\<close> again on the page it returned changes nothing.
\<close>

theorem C9_generate_deterministic:
  assumes "selectedVersion q = selectedVersion p" and "packageManager q = packageManager p"
    and "librariesTextarea_value q = librariesTextarea_value p"
    and "zipNameInput_value q = zipNameInput_value p"
  shows "map_sum id generatedCode_textContent (generateCode q) =
           map_sum id generatedCode_textContent (generateCode p) \<and>
         (\<forall>p'. generateCode p = Inr p' \<longrightarrow> generateCode p' = Inr p')"
  using assms by (auto simp add: generateCode_def split: option.splits)

theorem C9_witness:
  "map_sum id generatedCode_textContent
     (generateCode ((sample_page None)\<lparr>uvBtn_selected := True,
        generatedCode_textContent := js ''old text''\<rparr>)) =
   map_sum id generatedCode_textContent (generateCode (sample_page None)) \<and>
   generateCode (sample_page None) = Inr (sample_page None)"
  using C9_generate_deterministic [of
      "(sample_page None)\<lparr>uvBtn_selected := True,
        generatedCode_textContent := js ''old text''\<rparr>"
      "sample_page None"]
  by (simp add: sample_page_def generateCode_def)

subsection \<open>C10: the branch test\<close>

text \<open>
  C10: the template is chosen by comparing the strategy with \<^verbatim>\<open>'pyenv'\<close> only. For
  every other value, supported or not, the generated text is the second template, the one
  with the \<^verbatim>\<open>uv\<close> commands, written out here with its interpolations; it is the text
  generated for \<^verbatim>\<open>'uv'\<close>, and the generator does not reject the value.
\<close>

theorem C10_other_strategy_is_uv:
  assumes "pm \<noteq> js ''pyenv''"
  shows "generateCode_code pm v libs zn =
           js ''mkdir -p layer-build/ && cd layer-build/\<newline>'' @
           js ''cat << EOF > requirements.txt\<newline>'' @
           js_or (trim libs) (js ''requests==2.32.3'') @ js ''\<newline>'' @
           js ''EOF\<newline>'' @
           js ''\<newline>'' @
           js ''uv venv --python '' @ v @ js '' create_layer/\<newline>'' @
           js ''source create_layer/bin/activate\<newline>'' @
           js ''uv pip install -r requirements.txt\<newline>'' @
           js ''mkdir -p python\<newline>'' @
           js ''cp -r create_layer/lib python/\<newline>'' @
           js ''zip -r '' @ js_or (trim zn) (js ''lambda-layer'') @ js ''-py'' @
             js_replace v (js ''.'') (js '''') @ js ''.zip python\<newline>'' @
           js ''\<newline>'' @
           js ''# Cleanup\<newline>'' @
           js ''deactivate\<newline>'' @
           js ''rm -rf create_layer/ python/\<newline>'' \<and>
         generateCode_code pm v libs zn = generateCode_code (js ''uv'') v libs zn \<and>
         generateCode (pg\<lparr>selectedVersion := Some v, packageManager := pm\<rparr>) =
           Inr (pg\<lparr>selectedVersion := Some v, packageManager := pm,
             generatedCode_textContent :=
               generateCode_code (js ''uv'') v
                 (librariesTextarea_value pg) (zipNameInput_value pg)\<rparr>)"
proof -
  have u: "js ''uv'' \<noteq> js ''pyenv''" by (simp add: js_def cu_def)
  have e: "generateCode_code pm v libs zn = generateCode_code (js ''uv'') v libs zn"
    for v libs zn
    unfolding code_uv [OF assms] code_uv [OF u] ..
  have t: "generateCode_code pm v libs zn =
           js ''mkdir -p layer-build/ && cd layer-build/\<newline>'' @
           js ''cat << EOF > requirements.txt\<newline>'' @
           js_or (trim libs) (js ''requests==2.32.3'') @ js ''\<newline>'' @
           js ''EOF\<newline>'' @
           js ''\<newline>'' @
           js ''uv venv --python '' @ v @ js '' create_layer/\<newline>'' @
           js ''source create_layer/bin/activate\<newline>'' @
           js ''uv pip install -r requirements.txt\<newline>'' @
           js ''mkdir -p python\<newline>'' @
           js ''cp -r create_layer/lib python/\<newline>'' @
           js ''zip -r '' @ js_or (trim zn) (js ''lambda-layer'') @ js ''-py'' @
             js_replace v (js ''.'') (js '''') @ js ''.zip python\<newline>'' @
           js ''\<newline>'' @
           js ''# Cleanup\<newline>'' @
           js ''deactivate\<newline>'' @
           js ''rm -rf create_layer/ python/\<newline>''"
    using assms by (simp add: generateCode_code_def)
  have g: "generateCode (pg\<lparr>selectedVersion := Some v, packageManager := pm\<rparr>) =
           Inr (pg\<lparr>selectedVersion := Some v, packageManager := pm,
             generatedCode_textContent :=
               generateCode_code (js ''uv'') v
                 (librariesTextarea_value pg) (zipNameInput_value pg)\<rparr>)"
    using e [of v "librariesTextarea_value pg" "zipNameInput_value pg"]
    by (simp add: generateCode_def)
  from t e g show ?thesis by blast
qed

theorem C10_witness:
  "js ''poetry'' \<noteq> js ''pyenv'' \<and>
   generateCode_code (js ''poetry'') (js ''3.12'') (js ''boto3'') (js ''x'') =
     js ''mkdir -p layer-build/ && cd layer-build/\<newline>cat << EOF > requirements.txt\<newline>boto3\<newline>EOF\<newline>\<newline>uv venv --python 3.12 create_layer/\<newline>source create_layer/bin/activate\<newline>uv pip install -r requirements.txt\<newline>mkdir -p python\<newline>cp -r create_layer/lib python/\<newline>zip -r x-py312.zip python\<newline>\<newline># Cleanup\<newline>deactivate\<newline>rm -rf create_layer/ python/\<newline>'' \<and>
   generateCode_code (js ''poetry'') (js ''3.12'') (js ''boto3'') (js ''x'') =
     generateCode_code (js ''uv'') (js ''3.12'') (js ''boto3'') (js ''x'')"
proof -
  have ne: "js ''poetry'' \<noteq> js ''pyenv''" by (simp add: js_def cu_def)
  have r: "js_or (trim (js ''boto3'')) (js ''requests==2.32.3'') = js ''boto3''"
    "js_or (trim (js ''x'')) (js ''lambda-layer'') = js ''x''"
    "js_replace (js ''3.12'') (js ''.'') (js '''') = js ''312''"
    by (simp_all add: js_or_def trim_def trimStart_def trimEnd_def isWhiteSpace_def js_def cu_def)
  have a: "js ''mkdir -p layer-build/ && cd layer-build/\<newline>'' @
           js ''cat << EOF > requirements.txt\<newline>'' @
           js ''boto3'' @ js ''\<newline>'' @
           js ''EOF\<newline>'' @
           js ''\<newline>'' @
           js ''uv venv --python '' @ js ''3.12'' @ js '' create_layer/\<newline>'' @
           js ''source create_layer/bin/activate\<newline>'' @
           js ''uv pip install -r requirements.txt\<newline>'' @
           js ''mkdir -p python\<newline>'' @
           js ''cp -r create_layer/lib python/\<newline>'' @
           js ''zip -r '' @ js ''x'' @ js ''-py'' @ js ''312'' @ js ''.zip python\<newline>'' @
           js ''\<newline>'' @
           js ''# Cleanup\<newline>'' @
           js ''deactivate\<newline>'' @
           js ''rm -rf create_layer/ python/\<newline>'' =
     js ''mkdir -p layer-build/ && cd layer-build/\<newline>cat << EOF > requirements.txt\<newline>boto3\<newline>EOF\<newline>\<newline>uv venv --python 3.12 create_layer/\<newline>source create_layer/bin/activate\<newline>uv pip install -r requirements.txt\<newline>mkdir -p python\<newline>cp -r create_layer/lib python/\<newline>zip -r x-py312.zip python\<newline>\<newline># Cleanup\<newline>deactivate\<newline>rm -rf create_layer/ python/\<newline>''"
    by (simp add: js_def)
  note th = C10_other_strategy_is_uv [OF ne, of "js ''3.12''" "js ''boto3''" "js ''x''"
      "sample_page None", unfolded r a]
  from th ne show ?thesis by blast
qed

end
